theory Spec2Isabelle
  imports Main "HOL-Library.Word" "HOL-Library.Signed_Division" "HOL-Library.AList"
begin

section \<open>Data model of \<^verbatim>\<open>tqs.go\<close>\<close>

text \<open>
  The client talks to a queue service over HTTP. Everything the Go standard library does
  (building a request, the round trip, reading a body, JSON coding) is outside the
  repository; it enters the model through the record \<open>env\<close> below, so that every
  outcome the library can produce (an error or a value) is a branch of the model.

  Go strings are byte strings: \<open>string\<close>. \<open>time.Time\<close> values are only stored, never
  computed with: they are integers here, the zero time being \<open>0\<close>. Go's \<open>int\<close> is taken to
  be 64 bits wide (amd64, arm64); status codes and counters are never computed with, so
  they are \<open>int\<close>, and the one computation on an \<open>int\<close> (the wait time) is done on
  \<open>64 word\<close>.
\<close>

type_synonym Time = int

record Queue =
  Endpoint :: string
  Name :: string
  url :: string
  token :: string

record Message =
  queue :: Queue
  BodyText :: string
  BodyType :: string
  CreateDate :: Time
  VisibleDate :: Time
  ExpireDate :: Time
  LeaseUUID :: string
  LeaseTimeout :: int
  LeaseDate :: Time

record QueueStatistics =
  Visible :: int
  Delayed :: int
  Leased :: int

record GetOptions =
  Wait :: "64 word"
  Delete :: bool
  Retry :: bool

text \<open>
  A Go \<open>error\<close> value: the five error types of the package, and the errors of the
  libraries, which are of types of \<open>net/http\<close>, \<open>net/url\<close> and \<open>encoding/json\<close>
  and so never of one of the five. A nil error is \<open>None\<close> of \<open>error option\<close>.
\<close>

datatype error =
    LeaseNotFoundError Message
  | QueueNotFoundError Queue
  | QueueEmptyError Queue
  | QueueAlreadyExistsError Queue
  | QueueHTTPError Queue int
  | NetError string
  | JSONError string

text \<open>The zero values \<open>Queue{}\<close>, \<open>Message{}\<close> and \<open>QueueStatistics{}\<close>.\<close>

definition Queue_zero :: Queue where
  "Queue_zero = \<lparr>Endpoint = [], Name = [], url = [], token = []\<rparr>"

definition Message_zero :: Message where
  "Message_zero =
     \<lparr>queue = Queue_zero, BodyText = [], BodyType = [], CreateDate = 0, VisibleDate = 0,
      ExpireDate = 0, LeaseUUID = [], LeaseTimeout = 0, LeaseDate = 0\<rparr>"

definition QueueStatistics_zero :: QueueStatistics where
  "QueueStatistics_zero = \<lparr>Visible = 0, Delayed = 0, Leased = 0\<rparr>"

subsection \<open>Requests, responses and the library\<close>

text \<open>
  \<open>url.Values\<close> is a map from a key to a list of values; \<open>Set\<close> replaces the list of
  a key by one value. The query string of a request is either the one \<open>http.NewRequest\<close>
  parsed from the URL, or the encoding of a \<open>Values\<close> assigned to \<open>RawQuery\<close>.
\<close>

type_synonym Values = "(string \<times> string list) list"

definition Values_Set :: "string \<Rightarrow> string \<Rightarrow> Values \<Rightarrow> Values" where
  "Values_Set k v vs = AList.update k [v] vs"

datatype raw_query = FromURL | Encode Values

record request =
  Method :: string
  URL :: string
  RawQuery :: raw_query
  Header :: "(string \<times> string) list"
  Close :: bool
  Body :: "string option"

definition Header_Set :: "string \<Rightarrow> string \<Rightarrow> request \<Rightarrow> request" where
  "Header_Set k v req = req\<lparr>Header := AList.update k v (Header req)\<rparr>"

text \<open>
  A response: its status code, and what \<open>ioutil.ReadAll\<close> gives on its body (\<open>Inl\<close> a
  read error, \<open>Inr\<close> the bytes).
\<close>

record response =
  StatusCode :: int
  ReadAll :: "string + string"

text \<open>
  One exchange is a request together with the timeout of the \<open>http.Client\<close> that sends it
  (in seconds, \<open>None\<close> for a client without timeout). The world is the list of exchanges
  made so far; the service answers an exchange knowing the earlier ones.
\<close>

type_synonym exchange = "nat option \<times> request"

record world =
  sent :: "exchange list"

record 'v env =
  NewRequest_error :: "string \<Rightarrow> string \<Rightarrow> string option"
  URL_Query :: "string \<Rightarrow> Values"
  RoundTrip :: "exchange list \<Rightarrow> exchange \<Rightarrow> string + response"
  Marshal_CreateQueueRequest :: "string \<Rightarrow> string + string"
  Marshal_PutMessageRequest :: "(string \<times> string) list \<Rightarrow> string + string"
  Unmarshal_QueueStatistics :: "string \<Rightarrow> string + QueueStatistics"
  Unmarshal_GetMessagesResponse :: "string \<Rightarrow> string + Message list"
  Unmarshal_value :: "string \<Rightarrow> 'v \<Rightarrow> string option \<times> 'v"

text \<open>\<open>http.NewRequest(method, url, body)\<close>: an error, or a fresh request.\<close>

definition http_NewRequest :: "'v env \<Rightarrow> string \<Rightarrow> string \<Rightarrow> string option \<Rightarrow> error + request" where
  "http_NewRequest env meth u body =
     (case NewRequest_error env meth u of
        Some e \<Rightarrow> Inl (NetError e)
      | None \<Rightarrow> Inr \<lparr>Method = meth, URL = u, RawQuery = FromURL, Header = [],
                      Close = False, Body = body\<rparr>)"

text \<open>\<open>client.Do(req)\<close>: one exchange with the service, recorded in the world.\<close>

definition client_Do :: "'v env \<Rightarrow> nat option \<Rightarrow> request \<Rightarrow> world \<Rightarrow> (error + response) \<times> world" where
  "client_Do env timeout req w =
     (case RoundTrip env (sent w) (timeout, req) of
        Inl e \<Rightarrow> (Inl (NetError e), w\<lparr>sent := sent w @ [(timeout, req)]\<rparr>)
      | Inr res \<Rightarrow> (Inr res, w\<lparr>sent := sent w @ [(timeout, req)]\<rparr>))"

text \<open>The authentication header every operation sets when the queue has a token.\<close>

definition set_token :: "Queue \<Rightarrow> request \<Rightarrow> request" where
  "set_token q req =
     (if token q \<noteq> [] then Header_Set ''Authentication'' (''token '' @ token q) req else req)"

section \<open>The operations\<close>

subsection \<open>\<^verbatim>\<open>Message.Delete\<close>\<close>

definition Delete_request :: "Message \<Rightarrow> 'v env \<Rightarrow> error + request" where
  "Delete_request m env =
     (case http_NewRequest env ''DELETE'' (url (queue m) @ ''/leases/'' @ LeaseUUID m) None of
        Inl err \<Rightarrow> Inl err
      | Inr req \<Rightarrow> Inr ((set_token (queue m) req)\<lparr>Close := True\<rparr>))"

definition Message_Delete :: "Message \<Rightarrow> 'v env \<Rightarrow> world \<Rightarrow> error option \<times> world" where
  "Message_Delete m env w =
     (case Delete_request m env of
        Inl err \<Rightarrow> (Some err, w)
      | Inr req \<Rightarrow>
          (case client_Do env (Some 2) req w of
             (Inl err, w') \<Rightarrow> (Some err, w')
           | (Inr res, w') \<Rightarrow>
               if StatusCode res = 404 then (Some (LeaseNotFoundError m), w')
               else (None, w')))"

subsection \<open>\<^verbatim>\<open>NewQueue\<close>\<close>

definition NewQueue :: "string \<Rightarrow> string \<Rightarrow> string \<Rightarrow> Queue" where
  "NewQueue endpoint name tok =
     \<lparr>Endpoint = endpoint, Name = name, url = endpoint @ ''/queues/'' @ name, token = tok\<rparr>"

subsection \<open>\<^verbatim>\<open>Queue.Statistics\<close> and \<^verbatim>\<open>Queue.Exists\<close>\<close>

text \<open>The request of \<open>Statistics\<close> is the only one that does not set \<open>Close\<close>.\<close>

definition Statistics_request :: "Queue \<Rightarrow> 'v env \<Rightarrow> error + request" where
  "Statistics_request q env =
     (case http_NewRequest env ''GET'' (url q @ ''/statistics'') None of
        Inl err \<Rightarrow> Inl err
      | Inr req \<Rightarrow> Inr (set_token q req))"

text \<open>
  After \<open>client.Do\<close> has succeeded the variable \<open>err\<close> is nil; it is this variable, not
  \<open>readErr\<close>, that the function returns when reading the body fails. The error of
  \<open>json.Unmarshal\<close> is a new variable of the same name, and is the one returned.
\<close>

definition Statistics :: "Queue \<Rightarrow> 'v env \<Rightarrow> world \<Rightarrow> (QueueStatistics \<times> error option) \<times> world" where
  "Statistics q env w =
     (case Statistics_request q env of
        Inl err \<Rightarrow> ((QueueStatistics_zero, Some err), w)
      | Inr req \<Rightarrow>
          (case client_Do env (Some 2) req w of
             (Inl err, w') \<Rightarrow> ((QueueStatistics_zero, Some err), w')
           | (Inr res, w') \<Rightarrow>
               let err = None in
               if StatusCode res = 404 then ((QueueStatistics_zero, Some (QueueNotFoundError q)), w')
               else
                 (case ReadAll res of
                    Inl readErr \<Rightarrow> ((QueueStatistics_zero, err), w')
                  | Inr body \<Rightarrow>
                      (case Unmarshal_QueueStatistics env body of
                         Inl e \<Rightarrow> ((QueueStatistics_zero, Some (JSONError e)), w')
                       | Inr statistics \<Rightarrow> ((statistics, None), w')))))"

text \<open>The type assertion \<open>err.(*QueueNotFoundError)\<close> asks for the first constructor.\<close>

definition Exists :: "Queue \<Rightarrow> 'v env \<Rightarrow> world \<Rightarrow> (bool \<times> error option) \<times> world" where
  "Exists q env w =
     (case Statistics q env w of
        ((s, Some err), w') \<Rightarrow>
          (case err of
             QueueNotFoundError q' \<Rightarrow> ((False, None), w')
           | _ \<Rightarrow> ((False, Some err), w'))
      | ((s, None), w') \<Rightarrow> ((True, None), w'))"

subsection \<open>\<^verbatim>\<open>Queue.Create\<close>\<close>

definition Create_request :: "Queue \<Rightarrow> 'v env \<Rightarrow> error + request" where
  "Create_request q env =
     (case Marshal_CreateQueueRequest env (Name q) of
        Inl e \<Rightarrow> Inl (JSONError e)
      | Inr data \<Rightarrow>
          (case http_NewRequest env ''POST'' (Endpoint q @ ''/queues'') (Some data) of
             Inl err \<Rightarrow> Inl err
           | Inr req \<Rightarrow>
               Inr (Header_Set ''Content-Type'' ''application/json''
                      ((set_token q req)\<lparr>Close := True\<rparr>))))"

definition Create :: "Queue \<Rightarrow> 'v env \<Rightarrow> world \<Rightarrow> error option \<times> world" where
  "Create q env w =
     (case Create_request q env of
        Inl err \<Rightarrow> (Some err, w)
      | Inr req \<Rightarrow>
          (case client_Do env (Some 2) req w of
             (Inl err, w') \<Rightarrow> (Some err, w')
           | (Inr res, w') \<Rightarrow>
               if StatusCode res = 409 then (Some (QueueAlreadyExistsError q), w')
               else if StatusCode res \<noteq> 200 then (Some (QueueHTTPError q (StatusCode res)), w')
               else (None, w')))"

subsection \<open>\<^verbatim>\<open>Queue.Get\<close> and \<^verbatim>\<open>Queue.GetValue\<close>\<close>

text \<open>
  \<open>strconv.Itoa\<close>: the decimal digits of an \<open>int\<close>, with a minus sign when negative.
\<close>

fun decimal :: "nat \<Rightarrow> string" where
  "decimal n =
     (if n < 10 then [''0123456789'' ! n]
      else decimal (n div 10) @ [''0123456789'' ! (n mod 10)])"

declare decimal.simps [simp del]

definition strconv_Itoa :: "64 word \<Rightarrow> string" where
  "strconv_Itoa i =
     (if sint i < 0 then CHR ''-'' # decimal (nat (- sint i)) else decimal (nat (sint i)))"

text \<open>
  The division of two \<open>int\<close>s in Go truncates towards zero, and wraps around in the one
  case where the quotient does not fit.
\<close>

definition int_quo :: "64 word \<Rightarrow> 64 word \<Rightarrow> 64 word" where
  "int_quo a b = word_of_int (sint a sdiv sint b)"

text \<open>
  The request of \<open>Get\<close>. A nil \<open>options\<close> is \<open>None\<close>. With options, the query of the
  URL is parsed, the two parameters are set when asked for, and the encoding of the
  result becomes the query string. \<open>int(options.Wait)\<close> converts an \<open>int64\<close> to an
  \<open>int\<close> of the same width.
\<close>

definition Get_request :: "Queue \<Rightarrow> GetOptions option \<Rightarrow> 'v env \<Rightarrow> error + request" where
  "Get_request q options env =
     (case http_NewRequest env ''GET'' (url q) None of
        Inl err \<Rightarrow> Inl err
      | Inr req0 \<Rightarrow>
          let req = (set_token q req0)\<lparr>Close := True\<rparr> in
          (case options of
             None \<Rightarrow> Inr req
           | Some opts \<Rightarrow>
               let qv = URL_Query env (URL req);
                   qv = (if Delete opts then Values_Set ''delete'' ''true'' qv else qv);
                   qv = (if 0 <s Wait opts
                         then Values_Set ''wait_time''
                                (strconv_Itoa (int_quo (Wait opts) 1000000000)) qv
                         else qv)
               in Inr (req\<lparr>RawQuery := Encode qv\<rparr>)))"

definition Get :: "Queue \<Rightarrow> GetOptions option \<Rightarrow> 'v env \<Rightarrow> world \<Rightarrow> (Message \<times> error option) \<times> world" where
  "Get q options env w =
     (case Get_request q options env of
        Inl err \<Rightarrow> ((Message_zero, Some err), w)
      | Inr req \<Rightarrow>
          (case client_Do env None req w of
             (Inl err, w') \<Rightarrow> ((Message_zero, Some err), w')
           | (Inr res, w') \<Rightarrow>
               let err = None in
               if StatusCode res = 404 then ((Message_zero, Some (QueueNotFoundError q)), w')
               else
                 (case ReadAll res of
                    Inl readErr \<Rightarrow> ((Message_zero, err), w')
                  | Inr body \<Rightarrow>
                      (case Unmarshal_GetMessagesResponse env body of
                         Inl e \<Rightarrow> ((Message_zero, Some (JSONError e)), w')
                       | Inr messages \<Rightarrow>
                           if length messages = 1
                           then let msg = messages ! 0 in ((msg\<lparr>queue := q\<rparr>, None), w')
                           else ((Message_zero, Some (QueueEmptyError q)), w')))))"

text \<open>
  \<open>GetValue\<close> decodes the body text into the caller's target \<open>v\<close>; the target as the
  decoder leaves it is returned beside the error, since the caller sees it.
\<close>

definition GetValue :: "Queue \<Rightarrow> GetOptions option \<Rightarrow> 'v \<Rightarrow> 'v env \<Rightarrow> world \<Rightarrow> (error option \<times> 'v) \<times> world" where
  "GetValue q options v env w =
     (case Get q options env w of
        ((msg, Some err), w') \<Rightarrow> ((Some err, v), w')
      | ((msg, None), w') \<Rightarrow>
          (case Unmarshal_value env (BodyText msg) v of
             (Some e, v') \<Rightarrow> ((Some (JSONError e), v'), w')
           | (None, v') \<Rightarrow> ((None, v'), w')))"

subsection \<open>\<^verbatim>\<open>Queue.Put\<close>\<close>

definition Put_request :: "Queue \<Rightarrow> string \<Rightarrow> string \<Rightarrow> 'v env \<Rightarrow> error + request" where
  "Put_request q bodyText bodyType env =
     (case Marshal_PutMessageRequest env [(bodyText, bodyType)] of
        Inl e \<Rightarrow> Inl (JSONError e)
      | Inr data \<Rightarrow>
          (case http_NewRequest env ''POST'' (url q) (Some data) of
             Inl err \<Rightarrow> Inl err
           | Inr req \<Rightarrow>
               Inr (Header_Set ''Content-Type'' ''application/json''
                      ((set_token q req)\<lparr>Close := True\<rparr>))))"

definition Put :: "Queue \<Rightarrow> string \<Rightarrow> string \<Rightarrow> 'v env \<Rightarrow> world \<Rightarrow> error option \<times> world" where
  "Put q bodyText bodyType env w =
     (case Put_request q bodyText bodyType env of
        Inl err \<Rightarrow> (Some err, w)
      | Inr req \<Rightarrow>
          (case client_Do env None req w of
             (Inl err, w') \<Rightarrow> (Some err, w')
           | (Inr res, w') \<Rightarrow>
               if StatusCode res = 404 then (Some (QueueNotFoundError q), w')
               else if StatusCode res \<noteq> 200 then (Some (QueueHTTPError q (StatusCode res)), w')
               else (None, w')))"

section \<open>Vocabulary of the properties, and a concrete service\<close>

text \<open>Reading a decimal numeral back, to say which number \<open>decimal\<close> writes.\<close>

definition decimal_value :: "string \<Rightarrow> nat" where
  "decimal_value s = foldl (\<lambda>a c. 10 * a + (of_char c - 48)) 0 s"

text \<open>The queue an error value carries, if it is one of the package's errors.\<close>

fun error_queue :: "error \<Rightarrow> Queue option" where
  "error_queue (LeaseNotFoundError m) = Some (queue m)"
| "error_queue (QueueNotFoundError q) = Some q"
| "error_queue (QueueEmptyError q) = Some q"
| "error_queue (QueueAlreadyExistsError q) = Some q"
| "error_queue (QueueHTTPError q s) = Some q"
| "error_queue (NetError e) = None"
| "error_queue (JSONError e) = None"

definition about_queue :: "Queue \<Rightarrow> error option \<Rightarrow> bool" where
  "about_queue q err =
     (case err of
        None \<Rightarrow> True
      | Some e \<Rightarrow> (case error_queue e of None \<Rightarrow> True | Some q' \<Rightarrow> q' = q))"

text \<open>The URLs of the exchanges made between the world \<open>w\<close> and the later world \<open>w'\<close>.\<close>

definition new_URLs :: "world \<Rightarrow> world \<Rightarrow> string list" where
  "new_URLs w w' = map (\<lambda>x. URL (snd x)) (drop (length (sent w)) (sent w'))"

text \<open>
  A queue, two leased messages whose body text is not JSON, and the bodies of some
  responses of the service.
\<close>

definition jobs :: Queue where
  "jobs = NewQueue ''http://localhost:8080'' ''jobs'' ''secret''"

definition lease1 :: Message where
  "lease1 = Message_zero\<lparr>BodyText := ''{oops'', BodyType := ''text'', LeaseUUID := ''u1'',
                          LeaseTimeout := 60\<rparr>"

definition lease2 :: Message where
  "lease2 = Message_zero\<lparr>BodyText := ''{oops'', BodyType := ''text'', LeaseUUID := ''u2'',
                          LeaseTimeout := 60\<rparr>"

definition body_none :: string where
  \<open>body_none = ''{"messages":[]}''\<close>

definition body_lease1 :: string where
  \<open>body_lease1 = ''{"messages":[{"body":"{oops","type":"text","lease_uuid":"u1","lease_timeout":60}]}''\<close>

definition body_lease2 :: string where
  \<open>body_lease2 = ''{"messages":[{"body":"{oops","type":"text","lease_uuid":"u2","lease_timeout":60}]}''\<close>

definition body_both :: string where
  \<open>body_both = ''{"messages":[{"body":"{oops","type":"text","lease_uuid":"u1","lease_timeout":60},{"body":"{oops","type":"text","lease_uuid":"u2","lease_timeout":60}]}''\<close>

definition body_statistics :: string where
  \<open>body_statistics = ''{"visible":1,"delayed":2,"leased":3}''\<close>

text \<open>
  A service that gives the same answer to every exchange, with decoders that know the
  bodies above; the target of \<open>GetValue\<close> is a number, and only the text \<open>7\<close> decodes.
\<close>

definition service :: "string + response \<Rightarrow> nat env" where
  \<open>service answer =
     \<lparr>NewRequest_error = (\<lambda>meth u. None),
      URL_Query = (\<lambda>u. []),
      RoundTrip = (\<lambda>history x. answer),
      Marshal_CreateQueueRequest = (\<lambda>name. Inr (''{"name":"'' @ name @ ''"}'')),
      Marshal_PutMessageRequest =
        (\<lambda>ms. Inr (''{"messages":['' @
                     concat (map (\<lambda>(b, t). ''{"body":"'' @ b @ ''","type":"'' @ t @ ''"}'') ms) @
                     '']}'')),
      Unmarshal_QueueStatistics =
        (\<lambda>body. if body = body_statistics then Inr \<lparr>Visible = 1, Delayed = 2, Leased = 3\<rparr>
                 else if body = ''{}'' then Inr QueueStatistics_zero
                 else Inl ''unexpected end of JSON input''),
      Unmarshal_GetMessagesResponse =
        (\<lambda>body. if body = body_none then Inr []
                 else if body = body_lease1 then Inr [lease1]
                 else if body = body_lease2 then Inr [lease2]
                 else if body = body_both then Inr [lease1, lease2]
                 else Inl ''unexpected end of JSON input''),
      Unmarshal_value =
        (\<lambda>text v. if text = ''7'' then (None, 7)
                   else (Some ''invalid character in JSON text'', v))\<rparr>\<close>

definition answer :: "int \<Rightarrow> string \<Rightarrow> string + response" where
  "answer status body = Inr \<lparr>StatusCode = status, ReadAll = Inr body\<rparr>"

definition broken_body :: "int \<Rightarrow> string + response" where
  "broken_body status = Inr \<lparr>StatusCode = status, ReadAll = Inl ''unexpected EOF''\<rparr>"

definition world0 :: world where
  "world0 = \<lparr>sent = []\<rparr>"

section \<open>Auxiliary facts\<close>

lemmas concrete_defs = service_def answer_def broken_body_def world0_def jobs_def NewQueue_def
  http_NewRequest_def client_Do_def set_token_def Header_Set_def
  body_none_def body_lease1_def body_lease2_def body_both_def body_statistics_def

subsection \<open>Decimal numerals and the wait time\<close>

lemma digit_char_value:
  assumes "d < 10"
  shows "of_char (''0123456789'' ! d) = (48 + d :: nat)"
proof -
  from assms have "d \<in> {0, 1, 2, 3, 4, 5, 6, 7, 8, 9}" by auto
  then show ?thesis by auto
qed

lemma decimal_value_snoc:
  "decimal_value (s @ [c]) = 10 * decimal_value s + (of_char c - 48)"
  by (simp add: decimal_value_def)

lemma decimal_value_decimal: "decimal_value (decimal n) = n"
proof (induction n rule: decimal.induct)
  case (1 n)
  show ?case
  proof (cases "n < 10")
    case True
    then show ?thesis
      by (subst decimal.simps) (simp add: decimal_value_def digit_char_value)
  next
    case False
    with 1 have "decimal_value (decimal (n div 10)) = n div 10" by simp
    with False show ?thesis
      by (subst decimal.simps) (simp add: decimal_value_snoc digit_char_value)
  qed
qed

text \<open>
  For a positive duration the truncating division is the floor division, and the quotient
  fits into 64 bits.
\<close>

lemma int_quo_seconds:
  assumes "0 <s w"
  shows "sint (int_quo w 1000000000) = sint w div 1000000000"
proof -
  have pos: "0 < sint w" using assms by (simp add: word_sless_alt)
  have ub: "sint w < 2 ^ 63" using sint_lt [of w] by simp
  have "sint w sdiv sint (1000000000 :: 64 word) = sint w div 1000000000"
    using pos by (simp add: signed_divide_int_def)
  moreover have "0 \<le> sint w div 1000000000" using pos by simp
  moreover have "sint w div 1000000000 \<le> sint w"
    using pos by (intro zdiv_mono2 [of "sint w" 1 1000000000, simplified]) simp_all
  ultimately show ?thesis
    using ub by (simp add: int_quo_def sint_sbintrunc' signed_take_bit_int_eq_self_iff)
qed

lemma Itoa_seconds:
  assumes "0 <s w"
  shows "strconv_Itoa (int_quo w 1000000000) = decimal (nat (sint w div 1000000000))"
proof -
  have "0 < sint w" using assms by (simp add: word_sless_alt)
  then have "0 \<le> sint w div 1000000000" by simp
  then show ?thesis by (simp add: strconv_Itoa_def int_quo_seconds [OF assms])
qed

subsection \<open>The URL of each request\<close>

lemma http_NewRequest_URL:
  "http_NewRequest env meth u b = Inr r \<Longrightarrow> URL r = u"
  by (auto simp add: http_NewRequest_def split: option.splits)

lemma set_token_URL: "URL (set_token q r) = URL r"
  by (simp add: set_token_def Header_Set_def)

lemma Header_Set_URL: "URL (Header_Set k v r) = URL r"
  by (simp add: Header_Set_def)

lemma Statistics_request_URL:
  "Statistics_request q env = Inr req \<Longrightarrow> URL req = url q @ ''/statistics''"
  by (auto simp add: Statistics_request_def set_token_URL split: sum.splits
      dest: http_NewRequest_URL)

lemma Create_request_URL:
  "Create_request q env = Inr req \<Longrightarrow> URL req = Endpoint q @ ''/queues''"
  by (auto simp add: Create_request_def set_token_URL Header_Set_URL split: sum.splits
      dest: http_NewRequest_URL)

lemma Put_request_URL:
  "Put_request q b t env = Inr req \<Longrightarrow> URL req = url q"
  by (auto simp add: Put_request_def set_token_URL Header_Set_URL split: sum.splits
      dest: http_NewRequest_URL)

lemma Get_request_URL:
  "Get_request q options env = Inr req \<Longrightarrow> URL req = url q"
  by (auto simp add: Get_request_def set_token_URL Let_def split: sum.splits option.splits
      dest: http_NewRequest_URL)

lemma Delete_request_URL:
  "Delete_request m env = Inr req \<Longrightarrow> URL req = url (queue m) @ ''/leases/'' @ LeaseUUID m"
  by (auto simp add: Delete_request_def set_token_URL split: sum.splits
      dest: http_NewRequest_URL)

subsection \<open>What an operation adds to the world: nothing, or one exchange\<close>

lemma Statistics_sent:
  "sent (snd (Statistics q env w)) =
     (case Statistics_request q env of Inl e \<Rightarrow> sent w | Inr req \<Rightarrow> sent w @ [(Some 2, req)])"
  by (simp add: Statistics_def client_Do_def Let_def split: sum.splits)

lemma Exists_sent:
  "sent (snd (Exists q env w)) = sent (snd (Statistics q env w))"
  by (cases "Statistics q env w") (auto simp add: Exists_def split: option.splits error.splits)

lemma Create_sent:
  "sent (snd (Create q env w)) =
     (case Create_request q env of Inl e \<Rightarrow> sent w | Inr req \<Rightarrow> sent w @ [(Some 2, req)])"
  by (simp add: Create_def client_Do_def split: sum.splits)

lemma Put_sent:
  "sent (snd (Put q b t env w)) =
     (case Put_request q b t env of Inl e \<Rightarrow> sent w | Inr req \<Rightarrow> sent w @ [(None, req)])"
  by (simp add: Put_def client_Do_def split: sum.splits)

lemma Get_sent:
  "sent (snd (Get q options env w)) =
     (case Get_request q options env of Inl e \<Rightarrow> sent w | Inr req \<Rightarrow> sent w @ [(None, req)])"
  by (simp add: Get_def client_Do_def Let_def split: sum.splits)

lemma GetValue_sent:
  "sent (snd (GetValue q options v env w)) = sent (snd (Get q options env w))"
  by (cases "Get q options env w") (auto simp add: GetValue_def split: option.splits prod.splits)

lemma Delete_sent:
  "sent (snd (Message_Delete m env w)) =
     (case Delete_request m env of Inl e \<Rightarrow> sent w | Inr req \<Rightarrow> sent w @ [(Some 2, req)])"
  by (simp add: Message_Delete_def client_Do_def split: sum.splits)

lemma new_URLs_Statistics:
  "set (new_URLs w (snd (Statistics q env w))) \<subseteq> {url q @ ''/statistics''}"
  by (auto simp add: new_URLs_def Statistics_sent split: sum.splits dest: Statistics_request_URL)

lemma new_URLs_Exists:
  "set (new_URLs w (snd (Exists q env w))) \<subseteq> {url q @ ''/statistics''}"
  using new_URLs_Statistics [of w q env] by (simp add: new_URLs_def Exists_sent)

lemma new_URLs_Create:
  "set (new_URLs w (snd (Create q env w))) \<subseteq> {Endpoint q @ ''/queues''}"
  by (auto simp add: new_URLs_def Create_sent split: sum.splits dest: Create_request_URL)

lemma new_URLs_Put:
  "set (new_URLs w (snd (Put q b t env w))) \<subseteq> {url q}"
  by (auto simp add: new_URLs_def Put_sent split: sum.splits dest: Put_request_URL)

lemma new_URLs_Get:
  "set (new_URLs w (snd (Get q options env w))) \<subseteq> {url q}"
  by (auto simp add: new_URLs_def Get_sent split: sum.splits dest: Get_request_URL)

lemma new_URLs_Delete:
  "set (new_URLs w (snd (Message_Delete m env w))) \<subseteq> {url (queue m) @ ''/leases/'' @ LeaseUUID m}"
  by (auto simp add: new_URLs_def Delete_sent split: sum.splits dest: Delete_request_URL)

subsection \<open>The queue inside the results\<close>

lemma request_error_no_queue:
  "http_NewRequest env meth u b = Inl e \<Longrightarrow> error_queue e = None"
  by (auto simp add: http_NewRequest_def split: option.splits)

lemma Statistics_about: "about_queue q (snd (fst (Statistics q env w)))"
  by (auto simp add: Statistics_def Statistics_request_def client_Do_def about_queue_def Let_def
      split: sum.splits dest: request_error_no_queue)

lemma Exists_about: "about_queue q (snd (fst (Exists q env w)))"
  using Statistics_about [of q env w]
  by (cases "Statistics q env w")
     (auto simp add: Exists_def about_queue_def split: option.splits error.splits)

lemma Create_about: "about_queue q (fst (Create q env w))"
  by (auto simp add: Create_def Create_request_def client_Do_def about_queue_def
      split: sum.splits dest: request_error_no_queue)

lemma Put_about: "about_queue q (fst (Put q b t env w))"
  by (auto simp add: Put_def Put_request_def client_Do_def about_queue_def
      split: sum.splits dest: request_error_no_queue)

lemma Get_request_error_no_queue:
  "Get_request q options env = Inl e \<Longrightarrow> error_queue e = None"
  by (auto simp add: Get_request_def Let_def split: sum.splits option.splits
      dest: request_error_no_queue)

lemma Get_about: "about_queue q (snd (fst (Get q options env w)))"
  by (auto simp add: Get_def client_Do_def about_queue_def Let_def
      split: sum.splits dest: Get_request_error_no_queue)

lemma Get_back_reference:
  "fst (fst (Get q options env w)) = Message_zero \<or> queue (fst (fst (Get q options env w))) = q"
  by (auto simp add: Get_def client_Do_def Let_def split: sum.splits)

lemma Delete_about: "about_queue (queue m) (fst (Message_Delete m env w))"
  by (auto simp add: Message_Delete_def Delete_request_def client_Do_def about_queue_def
      split: sum.splits dest: request_error_no_queue)

subsection \<open>The requests of the concrete service\<close>

lemma service_RoundTrip: "RoundTrip (service a) history x = a"
  by (simp add: service_def)

lemma service_Unmarshal_QueueStatistics:
  "Unmarshal_QueueStatistics (service a) body =
     (if body = body_statistics then Inr \<lparr>Visible = 1, Delayed = 2, Leased = 3\<rparr>
      else if body = ''{}'' then Inr QueueStatistics_zero
      else Inl ''unexpected end of JSON input'')"
  by (simp add: service_def)

lemma service_Unmarshal_GetMessagesResponse:
  "Unmarshal_GetMessagesResponse (service a) body =
     (if body = body_none then Inr []
      else if body = body_lease1 then Inr [lease1]
      else if body = body_lease2 then Inr [lease2]
      else if body = body_both then Inr [lease1, lease2]
      else Inl ''unexpected end of JSON input'')"
  by (simp add: service_def)

lemma service_Unmarshal_value:
  "Unmarshal_value (service a) text v =
     (if text = ''7'' then (None, 7) else (Some ''invalid character in JSON text'', v))"
  by (simp add: service_def)

lemmas service_fields = service_RoundTrip service_Unmarshal_QueueStatistics
  service_Unmarshal_GetMessagesResponse service_Unmarshal_value answer_def broken_body_def
  world0_def body_none_def body_lease1_def body_lease2_def body_both_def body_statistics_def

lemma jobs_Get_request:
  "Get_request jobs None (service a) =
     Inr \<lparr>Method = ''GET'', URL = ''http://localhost:8080/queues/jobs'', RawQuery = FromURL,
          Header = [(''Authentication'', ''token secret'')], Close = True, Body = None\<rparr>"
  by (simp add: Get_request_def concrete_defs)

lemma jobs_Statistics_request:
  "Statistics_request jobs (service a) =
     Inr \<lparr>Method = ''GET'', URL = ''http://localhost:8080/queues/jobs/statistics'',
          RawQuery = FromURL, Header = [(''Authentication'', ''token secret'')],
          Close = False, Body = None\<rparr>"
  by (simp add: Statistics_request_def concrete_defs)

lemma jobs_Create_request:
  \<open>Create_request jobs (service a) =
     Inr \<lparr>Method = ''POST'', URL = ''http://localhost:8080/queues'', RawQuery = FromURL,
          Header = [(''Authentication'', ''token secret''),
                    (''Content-Type'', ''application/json'')],
          Close = True, Body = Some ''{"name":"jobs"}''\<rparr>\<close>
  by (simp add: Create_request_def concrete_defs)

lemma jobs_Delete_request:
  "Delete_request (lease1\<lparr>queue := jobs\<rparr>) (service a) =
     Inr \<lparr>Method = ''DELETE'', URL = ''http://localhost:8080/queues/jobs/leases/u1'',
          RawQuery = FromURL, Header = [(''Authentication'', ''token secret'')],
          Close = True, Body = None\<rparr>"
  by (simp add: Delete_request_def concrete_defs lease1_def)

section \<open>Properties\<close>

subsection \<open>Errors of \<^verbatim>\<open>Get\<close>\<close>

text \<open>
  C1. Whenever \<open>Get\<close> receives an HTTP response: with status 404 it returns the zero
  message and the \<open>QueueNotFound\<close> error of the queue; with another status and a body
  that decodes to a batch of zero messages it returns the zero message and the
  \<open>QueueEmpty\<close> error of the queue. The two are never confused: the result is a
  \<open>QueueNotFound\<close> error exactly when the status is 404, and a \<open>QueueEmpty\<close> error
  only when it is not.
\<close>

theorem Get_not_found_or_empty:
  assumes "Get_request q options env = Inr req"
    and "RoundTrip env (sent w) (None, req) = Inr res"
  shows "(StatusCode res = 404 \<longrightarrow>
            fst (Get q options env w) = (Message_zero, Some (QueueNotFoundError q)))
       \<and> (StatusCode res \<noteq> 404 \<and> ReadAll res = Inr body
            \<and> Unmarshal_GetMessagesResponse env body = Inr [] \<longrightarrow>
            fst (Get q options env w) = (Message_zero, Some (QueueEmptyError q)))
       \<and> ((\<exists>q'. snd (fst (Get q options env w)) = Some (QueueNotFoundError q'))
            \<longleftrightarrow> StatusCode res = 404)
       \<and> ((\<exists>q'. snd (fst (Get q options env w)) = Some (QueueEmptyError q'))
            \<longrightarrow> StatusCode res \<noteq> 404)"
  using assms
  by (auto simp add: Get_def client_Do_def Let_def split: sum.splits)

theorem Get_not_found_or_empty_witness:
  "RoundTrip (service (answer 404 [])) (sent world0)
       (None, \<lparr>Method = ''GET'', URL = ''http://localhost:8080/queues/jobs'',
               RawQuery = FromURL, Header = [(''Authentication'', ''token secret'')],
               Close = True, Body = None\<rparr>)
     = Inr \<lparr>StatusCode = 404, ReadAll = Inr []\<rparr>
   \<and> fst (Get jobs None (service (answer 404 [])) world0)
       = (Message_zero, Some (QueueNotFoundError jobs))
   \<and> Unmarshal_GetMessagesResponse (service (answer 200 body_none)) body_none = Inr []
   \<and> fst (Get jobs None (service (answer 200 body_none)) world0)
       = (Message_zero, Some (QueueEmptyError jobs))"
proof -
  have "fst (Get jobs None (service (answer 404 [])) world0)
          = (Message_zero, Some (QueueNotFoundError jobs))"
    using Get_not_found_or_empty [OF jobs_Get_request, of "answer 404 []" world0
        "\<lparr>StatusCode = 404, ReadAll = Inr []\<rparr>" "[]"]
    by (simp add: service_fields)
  moreover have "fst (Get jobs None (service (answer 200 body_none)) world0)
          = (Message_zero, Some (QueueEmptyError jobs))"
    using Get_not_found_or_empty [OF jobs_Get_request, of "answer 200 body_none" world0
        "\<lparr>StatusCode = 200, ReadAll = Inr body_none\<rparr>" body_none]
    by (simp add: service_fields)
  ultimately show ?thesis
    by (simp add: service_fields)
qed

subsection \<open>Status codes of \<^verbatim>\<open>Message.Delete\<close>\<close>

text \<open>
  C2. Whenever \<open>Message.Delete\<close> receives an HTTP response, it returns the
  \<open>LeaseNotFound\<close> error of the message if and only if the status is 404; it returns an
  error at all only then, so every other status (200 or not, 5xx included) gives nil.
\<close>

theorem Delete_status:
  assumes "Delete_request m env = Inr req"
    and "RoundTrip env (sent w) (Some 2, req) = Inr res"
  shows "(fst (Message_Delete m env w) = Some (LeaseNotFoundError m) \<longleftrightarrow> StatusCode res = 404)
       \<and> (StatusCode res \<noteq> 404 \<longrightarrow> fst (Message_Delete m env w) = None)
       \<and> ((\<exists>e. fst (Message_Delete m env w) = Some e) \<longleftrightarrow> StatusCode res = 404)"
  using assms by (simp add: Message_Delete_def client_Do_def)

theorem Delete_status_witness:
  "fst (Message_Delete (lease1\<lparr>queue := jobs\<rparr>) (service (answer 500 [])) world0) = None
   \<and> fst (Message_Delete (lease1\<lparr>queue := jobs\<rparr>) (service (answer 404 [])) world0)
       = Some (LeaseNotFoundError (lease1\<lparr>queue := jobs\<rparr>))"
proof -
  have "fst (Message_Delete (lease1\<lparr>queue := jobs\<rparr>) (service (answer 500 [])) world0) = None"
    using Delete_status [OF jobs_Delete_request, of "answer 500 []" world0
        "\<lparr>StatusCode = 500, ReadAll = Inr []\<rparr>"]
    by (simp add: service_fields)
  moreover have "fst (Message_Delete (lease1\<lparr>queue := jobs\<rparr>) (service (answer 404 [])) world0)
       = Some (LeaseNotFoundError (lease1\<lparr>queue := jobs\<rparr>))"
    using Delete_status [OF jobs_Delete_request, of "answer 404 []" world0
        "\<lparr>StatusCode = 404, ReadAll = Inr []\<rparr>"]
    by (simp add: service_fields)
  ultimately show ?thesis by simp
qed

subsection \<open>\<^verbatim>\<open>Exists\<close> in terms of \<^verbatim>\<open>Statistics\<close>\<close>

text \<open>
  C3. \<open>Exists\<close> calls \<open>Statistics\<close> (it leaves the world as that call leaves it) and
  returns \<open>(false, nil)\<close> exactly when \<open>Statistics\<close> returns a \<open>QueueNotFound\<close> error;
  any other error of \<open>Statistics\<close> is returned unchanged, with \<open>false\<close>; and when
  \<open>Statistics\<close> returns no error, \<open>Exists\<close> returns \<open>(true, nil)\<close>.
\<close>

theorem Exists_of_Statistics:
  assumes "Statistics q env w = ((s, err), w')"
  shows "(fst (Exists q env w) = (False, None) \<longleftrightarrow> (\<exists>q'. err = Some (QueueNotFoundError q')))
       \<and> (\<forall>e. err = Some e \<and> (\<forall>q'. e \<noteq> QueueNotFoundError q') \<longrightarrow>
             fst (Exists q env w) = (False, Some e))
       \<and> (err = None \<longrightarrow> fst (Exists q env w) = (True, None))
       \<and> snd (Exists q env w) = w'"
  using assms
  by (auto simp add: Exists_def split: option.splits error.splits)

theorem Exists_of_Statistics_witness:
  "fst (Statistics jobs (service (answer 404 [])) world0)
       = (QueueStatistics_zero, Some (QueueNotFoundError jobs))
   \<and> fst (Exists jobs (service (answer 404 [])) world0) = (False, None)
   \<and> fst (Statistics jobs (service (Inl ''connection refused'')) world0)
       = (QueueStatistics_zero, Some (NetError ''connection refused''))
   \<and> fst (Exists jobs (service (Inl ''connection refused'')) world0)
       = (False, Some (NetError ''connection refused''))
   \<and> fst (Statistics jobs (service (answer 200 body_statistics)) world0)
       = (\<lparr>Visible = 1, Delayed = 2, Leased = 3\<rparr>, None)
   \<and> fst (Exists jobs (service (answer 200 body_statistics)) world0) = (True, None)"
proof -
  have s: "Statistics jobs (service a) world0 =
             (fst (Statistics jobs (service a) world0), snd (Statistics jobs (service a) world0))"
    for a by simp
  have s1: "fst (Statistics jobs (service (answer 404 [])) world0)
       = (QueueStatistics_zero, Some (QueueNotFoundError jobs))"
    by (simp add: Statistics_def jobs_Statistics_request client_Do_def service_fields)
  have s2: "fst (Statistics jobs (service (Inl ''connection refused'')) world0)
       = (QueueStatistics_zero, Some (NetError ''connection refused''))"
    by (simp add: Statistics_def jobs_Statistics_request client_Do_def service_fields)
  have s3: "fst (Statistics jobs (service (answer 200 body_statistics)) world0)
       = (\<lparr>Visible = 1, Delayed = 2, Leased = 3\<rparr>, None)"
    by (simp add: Statistics_def jobs_Statistics_request client_Do_def service_fields)
  have "fst (Exists jobs (service (answer 404 [])) world0) = (False, None)"
    using Exists_of_Statistics [OF s [of "answer 404 []", unfolded s1]] by simp
  moreover have "fst (Exists jobs (service (Inl ''connection refused'')) world0)
       = (False, Some (NetError ''connection refused''))"
    using Exists_of_Statistics [OF s [of "Inl ''connection refused''", unfolded s2]] by simp
  moreover have "fst (Exists jobs (service (answer 200 body_statistics)) world0) = (True, None)"
    using Exists_of_Statistics [OF s [of "answer 200 body_statistics", unfolded s3]] by simp
  ultimately show ?thesis using s1 s2 s3 by simp
qed

subsection \<open>Status codes of \<^verbatim>\<open>Create\<close>\<close>

text \<open>
  C4. Whenever \<open>Create\<close> receives an HTTP response: status 200 gives nil, status 409 gives
  the \<open>QueueAlreadyExists\<close> error of the queue, and every other status gives a
  \<open>QueueHTTPError\<close> of the queue with exactly that status code.
\<close>

theorem Create_status:
  assumes "Create_request q env = Inr req"
    and "RoundTrip env (sent w) (Some 2, req) = Inr res"
  shows "(StatusCode res = 200 \<longrightarrow> fst (Create q env w) = None)
       \<and> (StatusCode res = 409 \<longrightarrow> fst (Create q env w) = Some (QueueAlreadyExistsError q))
       \<and> (StatusCode res \<noteq> 200 \<and> StatusCode res \<noteq> 409 \<longrightarrow>
            fst (Create q env w) = Some (QueueHTTPError q (StatusCode res)))"
  using assms by (simp add: Create_def client_Do_def)

theorem Create_status_witness:
  "fst (Create jobs (service (answer 200 [])) world0) = None
   \<and> fst (Create jobs (service (answer 409 [])) world0) = Some (QueueAlreadyExistsError jobs)
   \<and> fst (Create jobs (service (answer 503 [])) world0) = Some (QueueHTTPError jobs 503)"
proof -
  have "fst (Create jobs (service (answer 200 [])) world0) = None"
    using Create_status [OF jobs_Create_request, of "answer 200 []" world0
        "\<lparr>StatusCode = 200, ReadAll = Inr []\<rparr>"]
    by (simp add: service_fields)
  moreover have "fst (Create jobs (service (answer 409 [])) world0)
       = Some (QueueAlreadyExistsError jobs)"
    using Create_status [OF jobs_Create_request, of "answer 409 []" world0
        "\<lparr>StatusCode = 409, ReadAll = Inr []\<rparr>"]
    by (simp add: service_fields)
  moreover have "fst (Create jobs (service (answer 503 [])) world0)
       = Some (QueueHTTPError jobs 503)"
    using Create_status [OF jobs_Create_request, of "answer 503 []" world0
        "\<lparr>StatusCode = 503, ReadAll = Inr []\<rparr>"]
    by (simp add: service_fields)
  ultimately show ?thesis by simp
qed

subsection \<open>A batch of several messages\<close>

text \<open>
  C5 (as the code has it). Whenever \<open>Get\<close> receives a response that is not 404 and whose
  body decodes to a batch of more than one message, it returns the zero message and the
  \<open>QueueEmpty\<close> error of the queue: the guard is \<open>len(response.Messages) == 1\<close>. A
  message is returned, with its queue bound and no error, exactly when the batch has one
  message.
\<close>

theorem Get_batch_size:
  assumes "Get_request q options env = Inr req"
    and "RoundTrip env (sent w) (None, req) = Inr res"
    and "StatusCode res \<noteq> 404"
    and "ReadAll res = Inr body"
    and "Unmarshal_GetMessagesResponse env body = Inr messages"
  shows "(1 < length messages \<longrightarrow>
            fst (Get q options env w) = (Message_zero, Some (QueueEmptyError q)))
       \<and> (length messages = 1 \<longrightarrow>
            fst (Get q options env w) = ((messages ! 0)\<lparr>queue := q\<rparr>, None))
       \<and> (snd (fst (Get q options env w)) = None \<longleftrightarrow> length messages = 1)"
  using assms by (simp add: Get_def client_Do_def Let_def)

theorem Get_batch_size_witness:
  "Unmarshal_GetMessagesResponse (service (answer 200 body_both)) body_both
     = Inr [lease1, lease2]
   \<and> fst (Get jobs None (service (answer 200 body_both)) world0)
       = (Message_zero, Some (QueueEmptyError jobs))
   \<and> Unmarshal_GetMessagesResponse (service (answer 200 body_lease1)) body_lease1
     = Inr [lease1]
   \<and> fst (Get jobs None (service (answer 200 body_lease1)) world0)
       = (lease1\<lparr>queue := jobs\<rparr>, None)"
proof -
  have "fst (Get jobs None (service (answer 200 body_both)) world0)
       = (Message_zero, Some (QueueEmptyError jobs))"
    using Get_batch_size [OF jobs_Get_request, of "answer 200 body_both" world0
        "\<lparr>StatusCode = 200, ReadAll = Inr body_both\<rparr>" body_both "[lease1, lease2]"]
    by (simp add: service_fields)
  moreover have "fst (Get jobs None (service (answer 200 body_lease1)) world0)
       = (lease1\<lparr>queue := jobs\<rparr>, None)"
    using Get_batch_size [OF jobs_Get_request, of "answer 200 body_lease1" world0
        "\<lparr>StatusCode = 200, ReadAll = Inr body_lease1\<rparr>" body_lease1 "[lease1]"]
    by (simp add: service_fields)
  ultimately show ?thesis by (simp add: service_fields)
qed

text \<open>
  The claim as it was written, that the first message of such a batch is returned with no
  error, fails on a status 200 response carrying two messages.
\<close>

theorem Get_batch_counterexample:
  "Unmarshal_GetMessagesResponse (service (answer 200 body_both)) body_both
     = Inr [lease1, lease2]
   \<and> fst (Get jobs None (service (answer 200 body_both)) world0)
       = (Message_zero, Some (QueueEmptyError jobs))
   \<and> fst (Get jobs None (service (answer 200 body_both)) world0)
       \<noteq> (lease1\<lparr>queue := jobs\<rparr>, None)"
  by (simp add: Get_def jobs_Get_request client_Do_def service_fields)

subsection \<open>The query parameters of \<^verbatim>\<open>Get\<close>\<close>

text \<open>
  C6. For \<open>Get\<close> with options that are not nil, the query string of the request sent is
  the encoding of a \<open>Values\<close> in which: \<open>delete\<close> is set, to \<open>true\<close>, when
  \<open>options.Delete\<close> is true, and is otherwise as the queue URL has it; \<open>wait_time\<close> is
  set when \<open>options.Wait\<close> is strictly positive, and is otherwise as the queue URL has it;
  the value set for \<open>wait_time\<close> is the decimal numeral of the nanoseconds of \<open>Wait\<close>
  divided by \<open>10^9\<close> and rounded down; and no other parameter is touched.
\<close>

theorem Get_query_parameters:
  assumes "Get_request q (Some opts) env = Inr req"
  shows "\<exists>qv. RawQuery req = Encode qv
       \<and> map_of qv ''delete'' =
           (if Delete opts then Some [''true''] else map_of (URL_Query env (url q)) ''delete'')
       \<and> map_of qv ''wait_time'' =
           (if 0 <s Wait opts then Some [decimal (nat (sint (Wait opts) div 1000000000))]
            else map_of (URL_Query env (url q)) ''wait_time'')
       \<and> (0 <s Wait opts \<longrightarrow>
            int (decimal_value (decimal (nat (sint (Wait opts) div 1000000000))))
              = sint (Wait opts) div 1000000000)
       \<and> (\<forall>k. k \<noteq> ''delete'' \<and> k \<noteq> ''wait_time'' \<longrightarrow>
            map_of qv k = map_of (URL_Query env (url q)) k)
       \<and> sent (snd (Get q (Some opts) env w)) = sent w @ [(None, req)]"
proof -
  have nonneg: "0 \<le> sint (Wait opts) div 1000000000" if "0 <s Wait opts"
    using that by (simp add: word_sless_alt)
  have same_URL: "URL ((set_token q r)\<lparr>Close := True\<rparr>) = URL r" for r
    by (simp add: set_token_URL)
  from assms obtain r where r: "http_NewRequest env ''GET'' (url q) None = Inr r"
    by (auto simp add: Get_request_def split: sum.splits)
  then have "URL r = url q"
    by (rule http_NewRequest_URL)
  moreover have "sent (snd (Get q (Some opts) env w)) = sent w @ [(None, req)]"
    using assms by (simp add: Get_sent)
  ultimately show ?thesis
    using assms r same_URL
    by (auto simp add: Get_request_def Let_def Values_Set_def update_conv' Itoa_seconds
        decimal_value_decimal nonneg)
qed

theorem Get_query_parameters_witness:
  "Get_request jobs (Some \<lparr>Wait = 5500000000, Delete = True, Retry = False\<rparr>)
       (service (answer 200 body_none))
     = Inr \<lparr>Method = ''GET'', URL = ''http://localhost:8080/queues/jobs'',
            RawQuery = Encode [(''delete'', [''true'']), (''wait_time'', [''5''])],
            Header = [(''Authentication'', ''token secret'')], Close = True, Body = None\<rparr>
   \<and> map_of [(''delete'', [''true'']), (''wait_time'', [''5''])] ''wait_time''
       = Some [decimal (nat (sint (5500000000 :: 64 word) div 1000000000))]
   \<and> sint (5500000000 :: 64 word) div 1000000000 = 5"
proof -
  let ?opts = "\<lparr>Wait = 5500000000, Delete = True, Retry = False\<rparr>"
  let ?req = "\<lparr>Method = ''GET'', URL = ''http://localhost:8080/queues/jobs'',
            RawQuery = Encode [(''delete'', [''true'']), (''wait_time'', [''5''])],
            Header = [(''Authentication'', ''token secret'')], Close = True, Body = None\<rparr>"
  have d: "decimal 5 = ''5''" by (simp add: decimal.simps)
  have r: "Get_request jobs (Some ?opts) (service (answer 200 body_none)) = Inr ?req"
    by (simp add: Get_request_def concrete_defs Values_Set_def strconv_Itoa_def int_quo_def
        signed_divide_int_def word_sless_alt d)
  from Get_query_parameters [OF r, of world0] r show ?thesis
    by (auto simp add: word_sless_alt)
qed

subsection \<open>The queue and its URL\<close>

text \<open>
  C7. The queue built by \<open>NewQueue\<close> from an endpoint, a name and a token has the URL
  \<open>endpoint/queues/name\<close> (and the three fields as given), and no operation changes it.
  Every method has a value receiver and no method assigns to a field of it, so the
  operations of the model take the queue and give none back; what can be observed of the
  queue after an operation is unchanged: every error that carries a queue carries the
  very queue the operation was called on, the message \<open>Get\<close> returns is the zero message
  or refers back to that queue, and every request goes to the URL made of the endpoint
  and name the queue was built from.
\<close>

theorem Queue_url_fixed:
  assumes "q = NewQueue endpoint name tok"
  shows "url q = endpoint @ ''/queues/'' @ name \<and> Endpoint q = endpoint \<and> Name q = name
       \<and> token q = tok
       \<and> about_queue q (fst (Create q env w))
       \<and> set (new_URLs w (snd (Create q env w))) \<subseteq> {endpoint @ ''/queues''}
       \<and> about_queue q (snd (fst (Statistics q env w)))
       \<and> set (new_URLs w (snd (Statistics q env w)))
            \<subseteq> {endpoint @ ''/queues/'' @ name @ ''/statistics''}
       \<and> about_queue q (snd (fst (Exists q env w)))
       \<and> set (new_URLs w (snd (Exists q env w)))
            \<subseteq> {endpoint @ ''/queues/'' @ name @ ''/statistics''}
       \<and> about_queue q (snd (fst (Get q options env w)))
       \<and> (fst (fst (Get q options env w)) = Message_zero
            \<or> queue (fst (fst (Get q options env w))) = q)
       \<and> set (new_URLs w (snd (Get q options env w))) \<subseteq> {endpoint @ ''/queues/'' @ name}
       \<and> about_queue q (fst (Put q bodyText bodyType env w))
       \<and> set (new_URLs w (snd (Put q bodyText bodyType env w)))
            \<subseteq> {endpoint @ ''/queues/'' @ name}
       \<and> (queue m = q \<longrightarrow>
            about_queue q (fst (Message_Delete m env w))
            \<and> set (new_URLs w (snd (Message_Delete m env w)))
                \<subseteq> {endpoint @ ''/queues/'' @ name @ ''/leases/'' @ LeaseUUID m})"
proof -
  have fields: "url q = endpoint @ ''/queues/'' @ name" "Endpoint q = endpoint"
    "Name q = name" "token q = tok"
    using assms by (simp_all add: NewQueue_def)
  have del: "about_queue q (fst (Message_Delete m env w))
       \<and> set (new_URLs w (snd (Message_Delete m env w)))
                \<subseteq> {endpoint @ ''/queues/'' @ name @ ''/leases/'' @ LeaseUUID m}"
    if "queue m = q"
    using Delete_about [of m env w] new_URLs_Delete [of w m env] that fields(1) by simp
  show ?thesis
    using fields Create_about [of q env w] new_URLs_Create [of w q env]
      Statistics_about [of q env w] new_URLs_Statistics [of w q env]
      Exists_about [of q env w] new_URLs_Exists [of w q env]
      Get_about [of q options env w] Get_back_reference [of q options env w]
      new_URLs_Get [of w q options env]
      Put_about [of q bodyText bodyType env w] new_URLs_Put [of w q bodyText bodyType env]
      del
    by simp
qed

theorem Queue_url_fixed_witness:
  "jobs = NewQueue ''http://localhost:8080'' ''jobs'' ''secret''
   \<and> url jobs = ''http://localhost:8080/queues/jobs''
   \<and> queue (fst (fst (Get jobs None (service (answer 200 body_lease1)) world0))) = jobs
   \<and> set (new_URLs world0 (snd (Get jobs None (service (answer 200 body_lease1)) world0)))
        \<subseteq> {''http://localhost:8080/queues/jobs''}
   \<and> new_URLs world0 (snd (Get jobs None (service (answer 200 body_lease1)) world0)) \<noteq> []
   \<and> set (new_URLs world0
             (snd (Message_Delete (lease1\<lparr>queue := jobs\<rparr>) (service (answer 200 [])) world0)))
        \<subseteq> {''http://localhost:8080/queues/jobs/leases/u1''}"
proof -
  have nz: "fst (fst (Get jobs None (service (answer 200 body_lease1)) world0)) \<noteq> Message_zero"
    by (simp add: Get_def jobs_Get_request client_Do_def service_fields lease1_def
        Message_zero_def)
  have ne: "new_URLs world0 (snd (Get jobs None (service (answer 200 body_lease1)) world0)) \<noteq> []"
    by (simp add: new_URLs_def Get_sent jobs_Get_request world0_def)
  have u: "LeaseUUID (lease1\<lparr>queue := jobs\<rparr>) = ''u1''"
    by (simp add: lease1_def)
  show ?thesis
    using Queue_url_fixed [OF jobs_def, of "service (answer 200 body_lease1)" world0 None]
      Queue_url_fixed [OF jobs_def, of "service (answer 200 [])" world0 None
        "[]" "[]" "lease1\<lparr>queue := jobs\<rparr>"] nz ne u
    by (simp add: jobs_def [symmetric])
qed

subsection \<open>\<^verbatim>\<open>GetValue\<close> and a body text that does not decode\<close>

text \<open>
  C8 (as the code has it). When the \<open>Get\<close> inside \<open>GetValue\<close> succeeds and the body text
  of the message does not decode into the target, \<open>GetValue\<close> returns the error of the
  decoder, which is a JSON error and so neither a \<open>QueueNotFound\<close> nor a \<open>QueueEmpty\<close>
  error. The error and the target, as the decoder left it, are all that \<open>GetValue\<close>
  gives: they are the same for every message with that body text, and the message itself
  is not handed to the caller.
\<close>

theorem GetValue_decode_error:
  assumes "Get q options env w = ((msg, None), w')"
    and "Unmarshal_value env (BodyText msg) v = (Some e, v')"
  shows "GetValue q options v env w = ((Some (JSONError e), v'), w')
       \<and> (\<forall>q'. JSONError e \<noteq> QueueNotFoundError q' \<and> JSONError e \<noteq> QueueEmptyError q')
       \<and> (\<forall>q2 options2 env2 w2 msg2 w2'.
             Get q2 options2 env2 w2 = ((msg2, None), w2')
             \<and> Unmarshal_value env2 = Unmarshal_value env
             \<and> BodyText msg2 = BodyText msg \<longrightarrow>
             fst (GetValue q2 options2 v env2 w2) = fst (GetValue q options v env w))"
  using assms by (simp add: GetValue_def)

theorem GetValue_decode_error_witness:
  "Get jobs None (service (answer 200 body_lease1)) world0
     = ((lease1\<lparr>queue := jobs\<rparr>, None),
        snd (Get jobs None (service (answer 200 body_lease1)) world0))
   \<and> Unmarshal_value (service (answer 200 body_lease1)) (BodyText (lease1\<lparr>queue := jobs\<rparr>)) 0
       = (Some ''invalid character in JSON text'', 0)
   \<and> fst (GetValue jobs None 0 (service (answer 200 body_lease1)) world0)
       = (Some (JSONError ''invalid character in JSON text''), 0)
   \<and> fst (GetValue jobs None 0 (service (answer 200 body_lease2)) world0)
       = (Some (JSONError ''invalid character in JSON text''), 0)"
proof -
  have g1: "Get jobs None (service (answer 200 body_lease1)) world0
     = ((lease1\<lparr>queue := jobs\<rparr>, None),
        snd (Get jobs None (service (answer 200 body_lease1)) world0))"
    by (simp add: Get_def jobs_Get_request client_Do_def service_fields)
  have g2: "Get jobs None (service (answer 200 body_lease2)) world0
     = ((lease2\<lparr>queue := jobs\<rparr>, None),
        snd (Get jobs None (service (answer 200 body_lease2)) world0))"
    by (simp add: Get_def jobs_Get_request client_Do_def service_fields)
  have u1: "Unmarshal_value (service (answer 200 body_lease1))
              (BodyText (lease1\<lparr>queue := jobs\<rparr>)) 0
            = (Some ''invalid character in JSON text'', 0)"
    by (simp add: service_fields lease1_def)
  have same: "Unmarshal_value (service (answer 200 body_lease2))
                = Unmarshal_value (service (answer 200 body_lease1))"
    by (simp add: service_def)
  have b: "BodyText (lease2\<lparr>queue := jobs\<rparr>) = BodyText (lease1\<lparr>queue := jobs\<rparr>)"
    by (simp add: lease1_def lease2_def)
  note t = GetValue_decode_error [OF g1 u1]
  from t have v1: "fst (GetValue jobs None 0 (service (answer 200 body_lease1)) world0)
       = (Some (JSONError ''invalid character in JSON text''), 0)"
    by simp
  from t have "Get jobs None (service (answer 200 body_lease2)) world0
         = ((lease2\<lparr>queue := jobs\<rparr>, None),
            snd (Get jobs None (service (answer 200 body_lease2)) world0))
       \<and> Unmarshal_value (service (answer 200 body_lease2))
           = Unmarshal_value (service (answer 200 body_lease1))
       \<and> BodyText (lease2\<lparr>queue := jobs\<rparr>) = BodyText (lease1\<lparr>queue := jobs\<rparr>) \<longrightarrow>
       fst (GetValue jobs None 0 (service (answer 200 body_lease2)) world0)
         = fst (GetValue jobs None 0 (service (answer 200 body_lease1)) world0)"
    by blast
  with g2 same b have "fst (GetValue jobs None 0 (service (answer 200 body_lease2)) world0)
         = fst (GetValue jobs None 0 (service (answer 200 body_lease1)) world0)"
    by blast
  with v1 g1 u1 show ?thesis by simp
qed

text \<open>
  The claim as it was written, that the caller can still recover the message, fails: two
  calls that retrieve two different messages (two leases) leave the caller with exactly
  the same result and the same world.
\<close>

theorem GetValue_loses_message:
  "snd (fst (Get jobs None (service (answer 200 body_lease1)) world0)) = None
   \<and> snd (fst (Get jobs None (service (answer 200 body_lease2)) world0)) = None
   \<and> LeaseUUID (fst (fst (Get jobs None (service (answer 200 body_lease1)) world0))) = ''u1''
   \<and> LeaseUUID (fst (fst (Get jobs None (service (answer 200 body_lease2)) world0))) = ''u2''
   \<and> GetValue jobs None 0 (service (answer 200 body_lease1)) world0
       = GetValue jobs None 0 (service (answer 200 body_lease2)) world0
   \<and> fst (GetValue jobs None 0 (service (answer 200 body_lease1)) world0)
       = (Some (JSONError ''invalid character in JSON text''), 0)"
  by (simp add: GetValue_def Get_def jobs_Get_request client_Do_def service_fields
      lease1_def lease2_def)

subsection \<open>The option \<^verbatim>\<open>Retry\<close>\<close>

text \<open>
  C9. Two \<open>GetOptions\<close> that differ at most in \<open>Retry\<close> give the same request, the same
  result of \<open>Get\<close> and of \<open>GetValue\<close>, and the same world after the call. No operation
  takes any other options, and none repeats a request: every operation makes at most
  one exchange with the service.
\<close>

theorem Retry_is_inert:
  assumes "Wait o1 = Wait o2" and "Delete o1 = Delete o2"
  shows "Get_request q (Some o1) env = Get_request q (Some o2) env
       \<and> Get q (Some o1) env w = Get q (Some o2) env w
       \<and> GetValue q (Some o1) v env w = GetValue q (Some o2) v env w
       \<and> length (sent (snd (Get q options env w))) \<le> Suc (length (sent w))
       \<and> length (sent (snd (GetValue q options v env w))) \<le> Suc (length (sent w))
       \<and> length (sent (snd (Create q env w))) \<le> Suc (length (sent w))
       \<and> length (sent (snd (Statistics q env w))) \<le> Suc (length (sent w))
       \<and> length (sent (snd (Exists q env w))) \<le> Suc (length (sent w))
       \<and> length (sent (snd (Put q bodyText bodyType env w))) \<le> Suc (length (sent w))
       \<and> length (sent (snd (Message_Delete m env w))) \<le> Suc (length (sent w))"
proof -
  have req: "Get_request q (Some o1) env = Get_request q (Some o2) env"
    using assms by (simp add: Get_request_def Let_def split: sum.splits)
  then have get: "Get q (Some o1) env w = Get q (Some o2) env w"
    by (simp add: Get_def)
  then have val: "GetValue q (Some o1) v env w = GetValue q (Some o2) v env w"
    by (simp add: GetValue_def)
  have "length (sent (snd (Get q options env w))) \<le> Suc (length (sent w))"
    by (simp add: Get_sent split: sum.splits)
  moreover have "length (sent (snd (Create q env w))) \<le> Suc (length (sent w))"
    by (simp add: Create_sent split: sum.splits)
  moreover have "length (sent (snd (Statistics q env w))) \<le> Suc (length (sent w))"
    by (simp add: Statistics_sent split: sum.splits)
  moreover have "length (sent (snd (Put q bodyText bodyType env w))) \<le> Suc (length (sent w))"
    by (simp add: Put_sent split: sum.splits)
  moreover have "length (sent (snd (Message_Delete m env w))) \<le> Suc (length (sent w))"
    by (simp add: Delete_sent split: sum.splits)
  ultimately show ?thesis
    using req get val by (simp add: GetValue_sent Exists_sent)
qed

theorem Retry_is_inert_witness:
  "Wait \<lparr>Wait = 5500000000, Delete = True, Retry = False\<rparr>
     = Wait \<lparr>Wait = 5500000000, Delete = True, Retry = True\<rparr>
   \<and> Delete \<lparr>Wait = 5500000000, Delete = True, Retry = False\<rparr>
     = Delete \<lparr>Wait = 5500000000, Delete = True, Retry = True\<rparr>
   \<and> Get jobs (Some \<lparr>Wait = 5500000000, Delete = True, Retry = False\<rparr>)
        (service (Inl ''connection reset'')) world0
     = Get jobs (Some \<lparr>Wait = 5500000000, Delete = True, Retry = True\<rparr>)
        (service (Inl ''connection reset'')) world0
   \<and> length (sent (snd (Get jobs (Some \<lparr>Wait = 5500000000, Delete = True, Retry = True\<rparr>)
        (service (Inl ''connection reset'')) world0))) \<le> Suc (length (sent world0))"
  using Retry_is_inert [of "\<lparr>Wait = 5500000000, Delete = True, Retry = False\<rparr>"
      "\<lparr>Wait = 5500000000, Delete = True, Retry = True\<rparr>" jobs
      "service (Inl ''connection reset'')" world0 0
      "Some \<lparr>Wait = 5500000000, Delete = True, Retry = True\<rparr>"]
  by simp

subsection \<open>A body that cannot be read\<close>

text \<open>
  C10. In \<open>Statistics\<close> and in \<open>Get\<close>, when the status is not 404 and reading the body of
  the response fails, the result is the zero value with a nil error: the function returns
  the variable \<open>err\<close>, which is nil after a successful round trip, and not \<open>readErr\<close>. For
  \<open>Statistics\<close> this is the very result of a response whose body decodes to the zero
  statistics.
\<close>

theorem read_failure_returns_nil:
  "(Statistics_request q env = Inr req \<and> RoundTrip env (sent w) (Some 2, req) = Inr res
      \<and> StatusCode res \<noteq> 404 \<and> ReadAll res = Inl readErr \<longrightarrow>
      fst (Statistics q env w) = (QueueStatistics_zero, None)
      \<and> (\<forall>env2 res2 body. Statistics_request q env2 = Inr req
            \<and> RoundTrip env2 (sent w) (Some 2, req) = Inr res2
            \<and> StatusCode res2 \<noteq> 404 \<and> ReadAll res2 = Inr body
            \<and> Unmarshal_QueueStatistics env2 body = Inr QueueStatistics_zero \<longrightarrow>
            Statistics q env2 w = Statistics q env w))
   \<and> (Get_request q options env = Inr req' \<and> RoundTrip env (sent w) (None, req') = Inr res'
      \<and> StatusCode res' \<noteq> 404 \<and> ReadAll res' = Inl readErr' \<longrightarrow>
      fst (Get q options env w) = (Message_zero, None))"
  by (simp add: Statistics_def Get_def client_Do_def Let_def)

theorem read_failure_returns_nil_witness:
  "RoundTrip (service (broken_body 200)) (sent world0)
       (Some 2, \<lparr>Method = ''GET'', URL = ''http://localhost:8080/queues/jobs/statistics'',
          RawQuery = FromURL, Header = [(''Authentication'', ''token secret'')],
          Close = False, Body = None\<rparr>)
     = Inr \<lparr>StatusCode = 200, ReadAll = Inl ''unexpected EOF''\<rparr>
   \<and> fst (Statistics jobs (service (broken_body 200)) world0) = (QueueStatistics_zero, None)
   \<and> Statistics jobs (service (answer 200 ''{}'')) world0
       = Statistics jobs (service (broken_body 200)) world0
   \<and> fst (Get jobs None (service (broken_body 200)) world0) = (Message_zero, None)"
proof -
  let ?stat = "\<lparr>Method = ''GET'', URL = ''http://localhost:8080/queues/jobs/statistics'',
          RawQuery = FromURL, Header = [(''Authentication'', ''token secret'')],
          Close = False, Body = None\<rparr>"
  let ?get = "\<lparr>Method = ''GET'', URL = ''http://localhost:8080/queues/jobs'',
          RawQuery = FromURL, Header = [(''Authentication'', ''token secret'')],
          Close = True, Body = None\<rparr>"
  let ?res = "\<lparr>StatusCode = 200, ReadAll = Inl ''unexpected EOF''\<rparr>"
  note t = read_failure_returns_nil [of jobs "service (broken_body 200)" ?stat world0
        ?res "''unexpected EOF''" None ?get ?res "''unexpected EOF''"]
  have hs: "Statistics_request jobs (service (broken_body 200)) = Inr ?stat
      \<and> RoundTrip (service (broken_body 200)) (sent world0) (Some 2, ?stat) = Inr ?res
      \<and> StatusCode ?res \<noteq> 404 \<and> ReadAll ?res = Inl ''unexpected EOF''"
    by (simp add: jobs_Statistics_request service_fields)
  have hg: "Get_request jobs None (service (broken_body 200)) = Inr ?get
      \<and> RoundTrip (service (broken_body 200)) (sent world0) (None, ?get) = Inr ?res
      \<and> StatusCode ?res \<noteq> 404 \<and> ReadAll ?res = Inl ''unexpected EOF''"
    by (simp add: jobs_Get_request service_fields)
  from t hs have a: "fst (Statistics jobs (service (broken_body 200)) world0)
                     = (QueueStatistics_zero, None)"
    by blast
  from t hg have c: "fst (Get jobs None (service (broken_body 200)) world0) = (Message_zero, None)"
    by blast
  from t hs have "\<forall>env2 res2 body. Statistics_request jobs env2 = Inr ?stat
            \<and> RoundTrip env2 (sent world0) (Some 2, ?stat) = Inr res2
            \<and> StatusCode res2 \<noteq> 404 \<and> ReadAll res2 = Inr body
            \<and> Unmarshal_QueueStatistics env2 body = Inr QueueStatistics_zero \<longrightarrow>
            Statistics jobs env2 world0 = Statistics jobs (service (broken_body 200)) world0"
    by blast
  then have "Statistics_request jobs (service (answer 200 ''{}'')) = Inr ?stat
            \<and> RoundTrip (service (answer 200 ''{}'')) (sent world0) (Some 2, ?stat)
                = Inr \<lparr>StatusCode = 200, ReadAll = Inr ''{}''\<rparr>
            \<and> StatusCode \<lparr>StatusCode = 200, ReadAll = Inr ''{}''\<rparr> \<noteq> 404
            \<and> ReadAll \<lparr>StatusCode = 200, ReadAll = Inr ''{}''\<rparr> = Inr ''{}''
            \<and> Unmarshal_QueueStatistics (service (answer 200 ''{}'')) ''{}''
                = Inr QueueStatistics_zero \<longrightarrow>
            Statistics jobs (service (answer 200 ''{}'')) world0
              = Statistics jobs (service (broken_body 200)) world0"
    by blast
  then have b: "Statistics jobs (service (answer 200 ''{}'')) world0
              = Statistics jobs (service (broken_body 200)) world0"
    by (simp add: jobs_Statistics_request service_fields)
  from a b c hs show ?thesis by simp
qed

end
